theory Spec2Isabelle
  imports Complex_Main
begin

section \<open>The sales dashboard page: filter model\<close>

text \<open>
  The development embeds the \<^verbatim>\<open>Page\<close> component of
  \<^verbatim>\<open>src/frontend-next/src/app/page.tsx\<close>: its state (the \<^verbatim>\<open>useState\<close>
  cells), the two filter operations \<^verbatim>\<open>toggleSelectAll\<close> and \<^verbatim>\<open>toggleItem\<close>, the
  metadata effect, and the filters effect with the four response handlers.
\<close>

subsection \<open>Values and state\<close>

text \<open>
  A filter value is a \<^verbatim>\<open>string | number\<close> (the type of \<^verbatim>\<open>toggleItem\<close>'s
  \<^verbatim>\<open>item\<close>). Types are erased at run time and \<^verbatim>\<open>toggleItem\<close> casts its result
  with \<^verbatim>\<open>as any\<close>, so every dimension holds a list of such values.
\<close>

datatype item = Str string | Num real

text \<open>\<^verbatim>\<open>keyof MetaData\<close>, which is also \<^verbatim>\<open>"categories" | "regions" | "years"\<close>.\<close>

datatype filter_key = Categories | Regions | Years

text \<open>
  \<^verbatim>\<open>interface MetaData { categories; regions; years }\<close>; the \<^verbatim>\<open>filters\<close> state
  has the same three fields.
\<close>

record MetaData =
  categories :: "item list"
  regions :: "item list"
  years :: "item list"

type_synonym Filters = MetaData

text \<open>\<^verbatim>\<open>obj[key]\<close> and \<^verbatim>\<open>{ ...obj, [key]: v }\<close> on these objects.\<close>

fun get_key :: "filter_key \<Rightarrow> MetaData \<Rightarrow> item list" where
  "get_key Categories m = categories m"
| "get_key Regions m = regions m"
| "get_key Years m = years m"

fun with_key :: "filter_key \<Rightarrow> item list \<Rightarrow> MetaData \<Rightarrow> MetaData" where
  "with_key Categories v m = m\<lparr>categories := v\<rparr>"
| "with_key Regions v m = m\<lparr>regions := v\<rparr>"
| "with_key Years v m = m\<lparr>years := v\<rparr>"

subsection \<open>The JavaScript \<^verbatim>\<open>Set\<close> used by \<^verbatim>\<open>toggleItem\<close>\<close>

text \<open>
  A \<^verbatim>\<open>Set\<close> keeps its members in insertion order, without duplicates; it is modelled
  by the list that \<^verbatim>\<open>Array.from\<close> returns. \<^verbatim>\<open>new Set(xs)\<close> adds the elements of
  \<^verbatim>\<open>xs\<close> one after the other.
\<close>

definition set_has :: "item list \<Rightarrow> item \<Rightarrow> bool" where
  "set_has s x = (x \<in> set s)"

definition set_add :: "item list \<Rightarrow> item \<Rightarrow> item list" where
  "set_add s x = (if set_has s x then s else s @ [x])"

definition set_delete :: "item list \<Rightarrow> item \<Rightarrow> item list" where
  "set_delete s x = filter (\<lambda>y. y \<noteq> x) s"

definition new_Set :: "item list \<Rightarrow> item list" where
  "new_Set xs = foldl set_add [] xs"

subsection \<open>\<^verbatim>\<open>toggleSelectAll\<close> and \<^verbatim>\<open>toggleItem\<close>\<close>

text \<open>
  Both call \<^verbatim>\<open>setFilters\<close> with an updater; the functions below are these updaters,
  from the previous \<^verbatim>\<open>filters\<close> to the next. \<^verbatim>\<open>toggleSelectAll\<close> reads the
  \<^verbatim>\<open>meta\<close> of the render it was created in.

  \<^verbatim>\<open>
  const allSelected = prev[key].length === meta[key].length;
  return { ...prev, [key]: allSelected ? [] : [...meta[key]] }
  \<close>
\<close>

definition toggleSelectAll :: "MetaData \<Rightarrow> filter_key \<Rightarrow> Filters \<Rightarrow> Filters" where
  "toggleSelectAll meta key prev =
     (let allSelected = (length (get_key key prev) = length (get_key key meta))
      in with_key key (if allSelected then [] else get_key key meta) prev)"

text \<open>
  \<^verbatim>\<open>
  const set = new Set(prev[key]);
  if (set.has(item)) set.delete(item); else set.add(item);
  return { ...prev, [key]: Array.from(set) }
  \<close>
\<close>

definition toggleItem :: "filter_key \<Rightarrow> item \<Rightarrow> Filters \<Rightarrow> Filters" where
  "toggleItem key item prev =
     (let s = new_Set (get_key key prev)
      in with_key key (if set_has s item then set_delete s item else set_add s item) prev)"

section \<open>The sales dashboard page: queries and responses\<close>

subsection \<open>Response bodies\<close>

text \<open>
  \<^verbatim>\<open>r.data\<close> is the parsed JSON body of a response, of any shape at run time;
  \<^verbatim>\<open>JUndefined\<close> is the value of a property that an object does not have. \<^verbatim>\<open>JObj\<close>
  lists an object's own properties.
\<close>

datatype json =
  JUndefined
| JNull
| JBool bool
| JNum real
| JStr string
| JArr "json list"
| JObj "(string \<times> json) list"

datatype js_error = TypeError

text \<open>
  \<^verbatim>\<open>v.data\<close>: a \<^verbatim>\<open>TypeError\<close> on \<^verbatim>\<open>null\<close> and \<^verbatim>\<open>undefined\<close>, the property's value
  on an object that has it, \<^verbatim>\<open>undefined\<close> on every other value.
\<close>

fun data_of :: "json \<Rightarrow> js_error + json" where
  "data_of JUndefined = Inl TypeError"
| "data_of JNull = Inl TypeError"
| "data_of (JObj kvs) = Inr (case map_of kvs ''data'' of None \<Rightarrow> JUndefined | Some v \<Rightarrow> v)"
| "data_of v = Inr JUndefined"

text \<open>JavaScript truthiness, and \<^verbatim>\<open>a || b\<close> on values.\<close>

fun truthy :: "json \<Rightarrow> bool" where
  "truthy JUndefined = False"
| "truthy JNull = False"
| "truthy (JBool b) = b"
| "truthy (JNum n) = (n \<noteq> 0)"
| "truthy (JStr s) = (s \<noteq> [])"
| "truthy (JArr xs) = True"
| "truthy (JObj kvs) = True"

definition js_or :: "json \<Rightarrow> json \<Rightarrow> json" where
  "js_or a b = (if truthy a then a else b)"

subsection \<open>The state of the page\<close>

text \<open>
  The seven \<^verbatim>\<open>useState\<close> cells. The four result slots hold whatever a handler stored,
  so they are \<^typ>\<open>json\<close> values.
\<close>

record page_state =
  meta :: MetaData
  filters :: Filters
  summary :: json
  catData :: json
  regData :: json
  trendData :: json
  loading :: bool

definition initial_page :: page_state where
  "initial_page =
     \<lparr>meta = \<lparr>categories = [], regions = [], years = []\<rparr>,
      filters = \<lparr>categories = [], regions = [], years = []\<rparr>,
      summary = JNull, catData = JArr [], regData = JArr [], trendData = JObj [],
      loading = False\<rparr>"

text \<open>How a promise settles: fulfilled with a value, or rejected.\<close>

datatype 'a settled = Fulfilled 'a | Rejected

subsection \<open>The metadata effect\<close>

text \<open>
  \<^verbatim>\<open>
  axios.get(".../api/metadata")
    .then((res) => { setMeta(res.data);
                     setFilters({ categories: res.data.categories,
                                  regions: res.data.regions, years: res.data.years }); })
    .catch((err) => { console.error(...) });
  \<close>
\<close>

fun on_metadata :: "MetaData settled \<Rightarrow> page_state \<Rightarrow> page_state" where
  "on_metadata (Fulfilled d) s =
     s\<lparr>meta := d,
       filters := \<lparr>categories = categories d, regions = regions d, years = years d\<rparr>\<rparr>"
| "on_metadata Rejected s = s"

subsection \<open>The filters effect\<close>

text \<open>The request body: \<^verbatim>\<open>null\<close> is \<^const>\<open>None\<close>.\<close>

record Body =
  body_categories :: "item list option"
  body_regions :: "item list option"
  body_years :: "item list option"

datatype endpoint = ApiSummary | ApiSalesByCategory | ApiSalesByRegion | ApiMonthlyTrend

text \<open>
  \<^verbatim>\<open>
  const body = {
    categories: filters.categories.length ? filters.categories : null,
    regions: filters.regions.length ? filters.regions : null,
    years: filters.years.length ? filters.years : null };
  \<close>
\<close>

definition build_body :: "Filters \<Rightarrow> Body" where
  "build_body f =
     \<lparr>body_categories = (if length (categories f) \<noteq> 0 then Some (categories f) else None),
      body_regions = (if length (regions f) \<noteq> 0 then Some (regions f) else None),
      body_years = (if length (years f) \<noteq> 0 then Some (years f) else None)\<rparr>"

text \<open>
  The effect that runs when \<^verbatim>\<open>filters\<close> has changed. It returns the state it leaves
  and the requests it has posted; the handlers of these requests run later, one per
  settled request.
  \<^verbatim>\<open>
  if (!filters.categories.length) return;
  setLoading(true);
  const body = ...;
  axios.post(".../api/summary", body).then(...).catch(() => {});
  axios.post(".../api/sales_by_category", body).then(...).catch(() => {});
  axios.post(".../api/sales_by_region", body).then(...).catch(() => {});
  axios.post(".../api/monthly_trend", body).then(...).catch(() => {});
  setLoading(false);
  \<close>
\<close>

definition filters_effect :: "page_state \<Rightarrow> page_state \<times> (endpoint \<times> Body) list" where
  "filters_effect s =
     (if length (categories (filters s)) = 0 then (s, [])
      else
        let s1 = s\<lparr>loading := True\<rparr>;
            body = build_body (filters s1);
            posts = [(ApiSummary, body), (ApiSalesByCategory, body),
                     (ApiSalesByRegion, body), (ApiMonthlyTrend, body)];
            s2 = s1\<lparr>loading := False\<rparr>
        in (s2, posts))"

subsection \<open>The response handlers\<close>

text \<open>
  The \<^verbatim>\<open>.then\<close> callbacks:
  \<^verbatim>\<open>
  (r) => setSummary(r.data)
  (r) => setCatData(r.data.data || [])
  (r) => setRegData(r.data.data || [])
  (r) => setTrendData(r.data.data || {})
  \<close>
  The argument is \<^verbatim>\<open>r.data\<close>. A callback that throws sets nothing.
\<close>

fun on_fulfilled :: "endpoint \<Rightarrow> json \<Rightarrow> page_state \<Rightarrow> js_error + page_state" where
  "on_fulfilled ApiSummary d s = Inr (s\<lparr>summary := d\<rparr>)"
| "on_fulfilled ApiSalesByCategory d s =
     (case data_of d of Inl e \<Rightarrow> Inl e | Inr v \<Rightarrow> Inr (s\<lparr>catData := js_or v (JArr [])\<rparr>))"
| "on_fulfilled ApiSalesByRegion d s =
     (case data_of d of Inl e \<Rightarrow> Inl e | Inr v \<Rightarrow> Inr (s\<lparr>regData := js_or v (JArr [])\<rparr>))"
| "on_fulfilled ApiMonthlyTrend d s =
     (case data_of d of Inl e \<Rightarrow> Inl e | Inr v \<Rightarrow> Inr (s\<lparr>trendData := js_or v (JObj [])\<rparr>))"

text \<open>
  The whole chain \<^verbatim>\<open>post(...).then(...).catch(() => {})\<close> once the request has
  settled: the \<^verbatim>\<open>catch\<close> swallows a rejected request and an error thrown by the
  \<^verbatim>\<open>then\<close> callback alike.
\<close>

fun on_settled :: "endpoint \<Rightarrow> json settled \<Rightarrow> page_state \<Rightarrow> page_state" where
  "on_settled ep Rejected s = s"
| "on_settled ep (Fulfilled d) s = (case on_fulfilled ep d s of Inl e \<Rightarrow> s | Inr s' \<Rightarrow> s')"

text \<open>The slot that an endpoint's handler writes.\<close>

fun slot :: "endpoint \<Rightarrow> page_state \<Rightarrow> json" where
  "slot ApiSummary s = summary s"
| "slot ApiSalesByCategory s = catData s"
| "slot ApiSalesByRegion s = regData s"
| "slot ApiMonthlyTrend s = trendData s"

text \<open>Settled requests are handled one at a time, in the order in which they settle.\<close>

definition settle_all :: "(endpoint \<times> json settled) list \<Rightarrow> page_state \<Rightarrow> page_state" where
  "settle_all evs s = foldl (\<lambda>s (ep, out). on_settled ep out s) s evs"

section \<open>The page over time\<close>

text \<open>
  The page reacts to events: the metadata request settles, the user clicks a
  "select all" button or a checkbox, one of the posted requests settles. After an event
  that replaces \<^verbatim>\<open>filters\<close>, React runs the filters effect again.

  To speak about which run of the filters effect a request belongs to, the model numbers
  the runs. The page itself keeps no such number: \<^verbatim>\<open>generation\<close>, \<^verbatim>\<open>outstanding\<close>
  and \<^verbatim>\<open>slot_generation\<close> are bookkeeping of the model only, and no definition above
  reads them.
  \<^item> \<^verbatim>\<open>generation\<close>: how often \<^verbatim>\<open>filters\<close> has been replaced so far; the run of
    the filters effect after the first replacement (the metadata's) has generation 0,
    the next one generation 1, and so on;
  \<^item> \<^verbatim>\<open>outstanding\<close>: the posted requests that have not settled, each with the
    generation that posted it;
  \<^item> \<^verbatim>\<open>slot_generation\<close>: for each slot, the generation of the response that wrote
    its present content, if a response did.
\<close>

record system =
  page :: page_state
  generation :: nat
  outstanding :: "(nat \<times> endpoint) list"
  slot_generation :: "endpoint \<Rightarrow> nat option"

text \<open>
  The page after mounting: both effects have run once, the metadata request is on its
  way, and the filters effect has returned at its guard (nothing is selected yet).
\<close>

definition initial_system :: system where
  "initial_system =
     \<lparr>page = initial_page, generation = 0, outstanding = [], slot_generation = (\<lambda>ep. None)\<rparr>"

text \<open>\<^verbatim>\<open>filters\<close> is replaced by \<^verbatim>\<open>f\<close>, and the filters effect runs.\<close>

definition filters_changed :: "Filters \<Rightarrow> system \<Rightarrow> system" where
  "filters_changed f sys =
     (let g = generation sys;
          (p, posts) = filters_effect ((page sys)\<lparr>filters := f\<rparr>)
      in sys\<lparr>page := p, generation := Suc g,
             outstanding := outstanding sys @ map (\<lambda>(ep, body). (g, ep)) posts\<rparr>)"

text \<open>Whether the handler of a settled request stores a value in its slot.\<close>

fun writes :: "endpoint \<Rightarrow> json settled \<Rightarrow> page_state \<Rightarrow> bool" where
  "writes ep Rejected s = False"
| "writes ep (Fulfilled d) s = (case on_fulfilled ep d s of Inl e \<Rightarrow> False | Inr s' \<Rightarrow> True)"

datatype event =
  MetadataSettled "MetaData settled"
| ClickSelectAll filter_key
| ClickItem filter_key item
| RequestSettled nat endpoint "json settled"

fun step :: "event \<Rightarrow> system \<Rightarrow> system" where
  "step (MetadataSettled (Fulfilled d)) sys =
     (let p = on_metadata (Fulfilled d) (page sys)
      in filters_changed (filters p) (sys\<lparr>page := p\<rparr>))"
| "step (MetadataSettled Rejected) sys = sys\<lparr>page := on_metadata Rejected (page sys)\<rparr>"
| "step (ClickSelectAll key) sys =
     filters_changed (toggleSelectAll (meta (page sys)) key (filters (page sys))) sys"
| "step (ClickItem key v) sys =
     filters_changed (toggleItem key v (filters (page sys))) sys"
| "step (RequestSettled g ep out) sys =
     (if (g, ep) \<in> set (outstanding sys)
      then sys\<lparr>page := on_settled ep out (page sys),
               outstanding := remove1 (g, ep) (outstanding sys),
               slot_generation :=
                 (if writes ep out (page sys) then (slot_generation sys)(ep := Some g)
                  else slot_generation sys)\<rparr>
      else sys)"

definition run :: "event list \<Rightarrow> system \<Rightarrow> system" where
  "run evs sys = foldl (\<lambda>s e. step e s) sys evs"

subsection \<open>Reading a request body by dimension\<close>

text \<open>The body's field of a dimension.\<close>

fun body_key :: "filter_key \<Rightarrow> Body \<Rightarrow> item list option" where
  "body_key Categories b = body_categories b"
| "body_key Regions b = body_regions b"
| "body_key Years b = body_years b"

subsection \<open>Example data\<close>

text \<open>A metadata response with two categories, two regions and two years.\<close>

definition example_meta :: MetaData where
  "example_meta =
     \<lparr>categories = [Str ''A'', Str ''B''],
      regions = [Str ''East'', Str ''West''],
      years = [Num 2022, Num 2023]\<rparr>"

text \<open>
  A summary response with all four fields of \<^verbatim>\<open>SummaryData\<close>, for a given number of
  orders.
\<close>

definition example_summary :: "real \<Rightarrow> json" where
  "example_summary n =
     JObj [(''total_sales'', JNum 1000), (''total_profit'', JNum 250),
           (''avg_order_value'', JNum 125), (''orders'', JNum n)]"

section \<open>Properties of the filter model\<close>

lemma get_with_key: "get_key k (with_key k' v m) = (if k = k' then v else get_key k m)"
  by (cases k; cases k') simp_all

lemma with_key_get: "with_key k (get_key k m) m = m"
  by (cases k) simp_all

lemma with_key_twice: "with_key k v (with_key k w m) = with_key k v m"
  by (cases k) simp_all

lemma with_key_eq_iff: "with_key k v m = m \<longleftrightarrow> v = get_key k m"
proof
  assume "with_key k v m = m"
  then have "get_key k (with_key k v m) = get_key k m" by simp
  then show "v = get_key k m" by (simp add: get_with_key)
next
  assume "v = get_key k m"
  then show "with_key k v m = m" by (simp add: with_key_get)
qed

lemma set_foldl_set_add: "set (foldl set_add acc xs) = set acc \<union> set xs"
  by (induction xs arbitrary: acc) (auto simp: set_add_def set_has_def)

lemma set_new_Set: "set (new_Set xs) = set xs"
  by (simp add: new_Set_def set_foldl_set_add)

lemma set_set_add: "set (set_add s x) = insert x (set s)"
  by (auto simp: set_add_def set_has_def)

lemma set_set_delete: "set (set_delete s x) = set s - {x}"
  by (auto simp: set_delete_def)

lemma set_toggleItem:
  "set (get_key k (toggleItem k v f)) =
     (if v \<in> set (get_key k f) then set (get_key k f) - {v} else insert v (set (get_key k f)))"
  by (simp add: toggleItem_def Let_def get_with_key set_set_add set_set_delete set_new_Set
      set_has_def)

lemma toggleItem_other: "k' \<noteq> k \<Longrightarrow> get_key k' (toggleItem k v f) = get_key k' f"
  by (simp add: toggleItem_def Let_def get_with_key)

text \<open>
  C7 (toggle twice). For every selection, dimension \<open>k\<close> and value \<open>v\<close>, applying
  \<^verbatim>\<open>toggleItem(k, v)\<close> twice in succession gives back the original selection, read as
  a set, in every dimension \<open>k'\<close> (the toggled one and the two others).
\<close>

theorem toggleItem_twice:
  "set (get_key k' (toggleItem k v (toggleItem k v f))) = set (get_key k' f)"
proof (cases "k' = k")
  case True
  then show ?thesis by (auto simp: set_toggleItem)
next
  case False
  then show ?thesis by (simp add: toggleItem_other)
qed

text \<open>
  C5 as stated fails: \<^verbatim>\<open>toggleItem\<close> does not look at the metadata. With the
  categories \<open>A\<close> and \<open>B\<close> known and both selected, toggling the unknown value \<open>Z\<close>
  adds it to the selection.
\<close>

theorem toggleItem_unknown_value_counterexample:
  "Str ''Z'' \<notin> set (get_key Categories example_meta) \<and>
   toggleItem Categories (Str ''Z'') example_meta \<noteq> example_meta \<and>
   get_key Categories (toggleItem Categories (Str ''Z'') example_meta) =
     [Str ''A'', Str ''B'', Str ''Z'']"
  by (simp add: example_meta_def toggleItem_def new_Set_def set_add_def set_has_def
      set_delete_def)

text \<open>
  C5 (amended). For every dimension \<open>k\<close> and value \<open>v\<close>, whether or not \<open>v\<close> belongs to
  the metadata of \<open>k\<close> (which \<^verbatim>\<open>toggleItem\<close> never reads), \<^verbatim>\<open>toggleItem(k, v)\<close>
  produces the symmetric difference of \<open>{v}\<close> with the current selection set of \<open>k\<close>, and
  leaves the selection of every other dimension as it was.
\<close>

theorem toggleItem_symmetric_difference:
  "set (get_key k (toggleItem k v f)) = (set (get_key k f) - {v}) \<union> ({v} - set (get_key k f)) \<and>
   (k' \<noteq> k \<longrightarrow> get_key k' (toggleItem k v f) = get_key k' f)"
  by (auto simp: set_toggleItem toggleItem_other)

theorem toggleItem_symmetric_difference_witness:
  "set (get_key Categories (toggleItem Categories (Str ''Z'') example_meta)) =
     (set (get_key Categories example_meta) - {Str ''Z''}) \<union>
     ({Str ''Z''} - set (get_key Categories example_meta)) \<and>
   Regions \<noteq> Categories \<and>
   get_key Regions (toggleItem Categories (Str ''Z'') example_meta) =
     get_key Regions example_meta"
  using toggleItem_symmetric_difference [of Categories "Str ''Z''" example_meta Regions]
  by simp

text \<open>
  C6 as stated fails: from a partial selection, the first \<^verbatim>\<open>toggleSelectAll\<close> selects
  everything and the second clears the selection. With the categories \<open>A\<close> and \<open>B\<close> known
  and only \<open>A\<close> selected, two applications end with no category selected.
\<close>

theorem toggleSelectAll_twice_counterexample:
  "toggleSelectAll example_meta Categories
     (toggleSelectAll example_meta Categories (example_meta\<lparr>categories := [Str ''A'']\<rparr>))
   \<noteq> example_meta\<lparr>categories := [Str ''A'']\<rparr> \<and>
   get_key Categories
     (toggleSelectAll example_meta Categories
       (toggleSelectAll example_meta Categories (example_meta\<lparr>categories := [Str ''A'']\<rparr>)))
   = []"
  by (simp add: example_meta_def toggleSelectAll_def)

text \<open>
  C6 (amended). With the metadata \<open>m\<close> unchanged in between, applying
  \<^verbatim>\<open>toggleSelectAll(k)\<close> twice returns the selection to its original state exactly when
  the selection of \<open>k\<close> was empty or was the metadata list of \<open>k\<close>. In general the two
  applications leave, for \<open>k\<close>, the metadata list when the selection had the metadata's
  length, and the empty selection otherwise.
\<close>

theorem toggleSelectAll_twice:
  "(toggleSelectAll m k (toggleSelectAll m k f) = f) =
     (get_key k f = [] \<or> get_key k f = get_key k m) \<and>
   get_key k (toggleSelectAll m k (toggleSelectAll m k f)) =
     (if length (get_key k f) = length (get_key k m) then get_key k m else [])"
  by (auto simp: toggleSelectAll_def Let_def get_with_key with_key_twice with_key_eq_iff)

text \<open>
  C10 (cardinality, not membership). Whenever the selection of \<open>k\<close> has the length of the
  metadata list of \<open>k\<close>, \<^verbatim>\<open>toggleSelectAll(k)\<close> clears it, whatever its members are;
  only when the lengths differ does it set the selection to the metadata list. The other
  dimensions keep their selections.
\<close>

theorem toggleSelectAll_tests_length:
  "(length (get_key k f) = length (get_key k m) \<longrightarrow> get_key k (toggleSelectAll m k f) = []) \<and>
   (length (get_key k f) \<noteq> length (get_key k m) \<longrightarrow>
      get_key k (toggleSelectAll m k f) = get_key k m) \<and>
   (k' \<noteq> k \<longrightarrow> get_key k' (toggleSelectAll m k f) = get_key k' f)"
  by (simp add: toggleSelectAll_def Let_def get_with_key)

text \<open>
  The first instance has a selection \<open>[Z, B]\<close> of the metadata's length whose members
  differ from the metadata's \<open>[A, B]\<close>: it is cleared. The second has the shorter
  selection \<open>[A]\<close>: it becomes \<open>[A, B]\<close>.
\<close>

theorem toggleSelectAll_tests_length_witness:
  "(length (get_key Categories (example_meta\<lparr>categories := [Str ''Z'', Str ''B'']\<rparr>)) =
      length (get_key Categories example_meta) \<and>
    Str ''Z'' \<in> set (get_key Categories (example_meta\<lparr>categories := [Str ''Z'', Str ''B'']\<rparr>)) \<and>
    Str ''Z'' \<notin> set (get_key Categories example_meta) \<and>
    get_key Categories
      (toggleSelectAll example_meta Categories
        (example_meta\<lparr>categories := [Str ''Z'', Str ''B'']\<rparr>)) = []) \<and>
   (length (get_key Categories (example_meta\<lparr>categories := [Str ''A'']\<rparr>)) \<noteq>
      length (get_key Categories example_meta) \<and>
    get_key Categories
      (toggleSelectAll example_meta Categories (example_meta\<lparr>categories := [Str ''A'']\<rparr>)) =
      [Str ''A'', Str ''B'']) \<and>
   Years \<noteq> Categories \<and>
   get_key Years
     (toggleSelectAll example_meta Categories (example_meta\<lparr>categories := [Str ''A'']\<rparr>)) =
     [Num 2022, Num 2023]"
  using
    toggleSelectAll_tests_length
      [of Categories "example_meta\<lparr>categories := [Str ''Z'', Str ''B'']\<rparr>" example_meta Years]
    toggleSelectAll_tests_length
      [of Categories "example_meta\<lparr>categories := [Str ''A'']\<rparr>" example_meta Years]
  by (simp add: example_meta_def)

section \<open>Properties of the request body and of the dispatch\<close>

lemma body_key_build_body:
  "body_key k (build_body f) = (if get_key k f = [] then None else Some (get_key k f))"
  by (cases k) (simp_all add: build_body_def)

text \<open>
  C4 as stated fails: with the regions \<open>East\<close> and \<open>West\<close> known, the full selection is
  sent as the explicit list of both, the empty selection as \<^verbatim>\<open>null\<close>.
\<close>

theorem build_body_full_selection_counterexample:
  "body_key Regions (build_body (with_key Regions (get_key Regions example_meta) example_meta)) =
     Some [Str ''East'', Str ''West''] \<and>
   body_key Regions (build_body (with_key Regions [] example_meta)) = None \<and>
   body_key Regions (build_body (with_key Regions (get_key Regions example_meta) example_meta)) \<noteq>
     body_key Regions (build_body (with_key Regions [] example_meta))"
  by (simp add: example_meta_def build_body_def)

text \<open>
  C4 (amended). For every dimension \<open>k\<close>, the body built from a selection holds
  \<^verbatim>\<open>null\<close> (unrestricted) when the selection of \<open>k\<close> is empty, and the selection itself,
  as an explicit list, when it is not empty, the full selection included. So the empty and
  the full selection (all metadata values of \<open>k\<close>) give the same body value exactly when
  the metadata of \<open>k\<close> is empty.
\<close>

theorem build_body_by_dimension:
  "body_key k (build_body f) = (if get_key k f = [] then None else Some (get_key k f)) \<and>
   (body_key k (build_body (with_key k [] f)) =
      body_key k (build_body (with_key k (get_key k m) f))) = (get_key k m = [])"
  by (simp add: body_key_build_body get_with_key)

lemma snd_filters_effect:
  "snd (filters_effect s) =
     (if categories (filters s) = [] then []
      else map (\<lambda>ep. (ep, build_body (filters s)))
             [ApiSummary, ApiSalesByCategory, ApiSalesByRegion, ApiMonthlyTrend])"
  by (simp add: filters_effect_def Let_def)

lemma fst_filters_effect:
  "fst (filters_effect s) = (if categories (filters s) = [] then s else s\<lparr>loading := False\<rparr>)"
  by (simp add: filters_effect_def Let_def)

lemma outstanding_filters_changed:
  "outstanding (filters_changed f sys) =
     outstanding sys @
     (if categories f = [] then []
      else map (\<lambda>ep. (generation sys, ep))
             [ApiSummary, ApiSalesByCategory, ApiSalesByRegion, ApiMonthlyTrend])"
  by (simp add: filters_changed_def Let_def filters_effect_def)

lemma loading_filters_changed:
  "loading (page (filters_changed f sys)) =
     (if categories f = [] then loading (page sys) else False)"
  by (simp add: filters_changed_def Let_def filters_effect_def)

text \<open>
  C3 as stated fails: the guard of the filters effect reads the category selection only.
  After the metadata has arrived (everything selected), "unselect all" on the categories
  leaves the metadata populated and both regions and both years selected, and the effect
  that follows this mutation posts nothing: the only outstanding requests are the four of
  the run before.
\<close>

theorem dispatch_skipped_with_metadata_counterexample:
  "meta (page (run [MetadataSettled (Fulfilled example_meta), ClickSelectAll Categories]
           initial_system)) = example_meta \<and>
   regions (filters (page (run [MetadataSettled (Fulfilled example_meta),
           ClickSelectAll Categories] initial_system))) = [Str ''East'', Str ''West''] \<and>
   categories (filters (page (run [MetadataSettled (Fulfilled example_meta),
           ClickSelectAll Categories] initial_system))) = [] \<and>
   outstanding (run [MetadataSettled (Fulfilled example_meta), ClickSelectAll Categories]
           initial_system) =
     outstanding (run [MetadataSettled (Fulfilled example_meta)] initial_system) \<and>
   outstanding (run [MetadataSettled (Fulfilled example_meta)] initial_system) =
     [(0, ApiSummary), (0, ApiSalesByCategory), (0, ApiSalesByRegion), (0, ApiMonthlyTrend)]"
  by (simp add: run_def initial_system_def initial_page_def example_meta_def
      filters_changed_def filters_effect_def toggleSelectAll_def Let_def)

text \<open>
  C3 (amended). After a filter mutation the four aggregation requests are skipped exactly
  when the category selection is empty, whatever the selections of the other dimensions
  and whether or not the metadata is populated; in every other state the mutation
  dispatches all four requests, each with the body built from the new selection.
\<close>

theorem dispatch_guard:
  "snd (filters_effect s) =
     (if categories (filters s) = [] then []
      else [(ApiSummary, build_body (filters s)), (ApiSalesByCategory, build_body (filters s)),
            (ApiSalesByRegion, build_body (filters s)), (ApiMonthlyTrend, build_body (filters s))]) \<and>
   outstanding (filters_changed f sys) =
     outstanding sys @
     (if categories f = [] then []
      else [(generation sys, ApiSummary), (generation sys, ApiSalesByCategory),
            (generation sys, ApiSalesByRegion), (generation sys, ApiMonthlyTrend)])"
  by (simp add: snd_filters_effect outstanding_filters_changed)

text \<open>
  C2, the code at a failing input. The metadata arrives on the initial page; the filters
  effect runs and posts its four requests. When the effect has ended, all four are
  outstanding (none has settled) and the loading flag is already false.
\<close>

theorem loading_cleared_at_dispatch:
  "outstanding (step (MetadataSettled (Fulfilled example_meta)) initial_system) =
     [(0, ApiSummary), (0, ApiSalesByCategory), (0, ApiSalesByRegion), (0, ApiMonthlyTrend)] \<and>
   loading (page (step (MetadataSettled (Fulfilled example_meta)) initial_system)) = False"
  by (simp add: initial_system_def initial_page_def example_meta_def
      filters_changed_def filters_effect_def Let_def)

section \<open>Properties of the response handlers\<close>

lemma slot_on_settled_other: "ep' \<noteq> ep \<Longrightarrow> slot ep (on_settled ep' out s) = slot ep s"
  by (cases out; cases ep; cases ep') (simp_all split: sum.splits)

lemma on_settled_summary: "summary (on_settled ApiSummary (Fulfilled d) s) = d"
  by simp

lemma on_settled_data:
  assumes "data_of d = Inr v"
  shows "catData (on_settled ApiSalesByCategory (Fulfilled d) s) = js_or v (JArr [])"
    and "regData (on_settled ApiSalesByRegion (Fulfilled d) s) = js_or v (JArr [])"
    and "trendData (on_settled ApiMonthlyTrend (Fulfilled d) s) = js_or v (JObj [])"
  using assms by simp_all

lemma on_settled_unreadable:
  assumes "data_of d = Inl e" and "ep \<noteq> ApiSummary"
  shows "on_settled ep (Fulfilled d) s = s"
  using assms by (cases ep) simp_all

lemma data_of_readable: "d \<noteq> JNull \<Longrightarrow> d \<noteq> JUndefined \<Longrightarrow> \<exists>v. data_of d = Inr v"
  by (cases d) simp_all

lemma slot_on_settled_state_independent:
  assumes "ep = ApiSummary \<or> (d \<noteq> JNull \<and> d \<noteq> JUndefined)"
  shows "slot ep (on_settled ep (Fulfilled d) s) = slot ep (on_settled ep (Fulfilled d) s')"
proof (cases "ep = ApiSummary")
  case True
  then show ?thesis by simp
next
  case False
  with assms obtain v where "data_of d = Inr v"
    using data_of_readable by blast
  then show ?thesis by (cases ep) simp_all
qed

lemma writes_iff:
  "writes ep (Fulfilled d) s = (ep = ApiSummary \<or> (d \<noteq> JNull \<and> d \<noteq> JUndefined))"
  by (cases ep; cases d) simp_all

lemma settle_all_snoc:
  "settle_all (evs @ [(ep, out)]) s = on_settled ep out (settle_all evs s)"
  by (simp add: settle_all_def)

lemma slot_settle_all_rejected:
  assumes "\<And>out. (ep, out) \<in> set evs \<Longrightarrow> out = Rejected"
  shows "slot ep (settle_all evs s) = slot ep s"
  using assms
proof (induction evs rule: rev_induct)
  case Nil
  show ?case by (simp add: settle_all_def)
next
  case (snoc x evs)
  obtain ep' out where x: "x = (ep', out)" by (cases x)
  have ih: "slot ep (settle_all evs s) = slot ep s"
  proof (rule snoc.IH)
    fix out' assume "(ep, out') \<in> set evs"
    then have "(ep, out') \<in> set (evs @ [x])" by simp
    then show "out' = Rejected" by (rule snoc.prems)
  qed
  show ?case
  proof (cases "ep' = ep")
    case True
    then have "(ep, out) \<in> set (evs @ [x])" by (simp add: x)
    then have "out = Rejected" by (rule snoc.prems)
    then show ?thesis by (simp add: x settle_all_snoc ih)
  next
    case False
    then show ?thesis by (simp add: x settle_all_snoc slot_on_settled_other ih)
  qed
qed

lemma slot_settle_all_fulfilled:
  assumes "(ep, Fulfilled d) \<in> set evs"
    and "\<And>out. (ep, out) \<in> set evs \<Longrightarrow> out = Fulfilled d"
    and "\<And>s'. slot ep (on_settled ep (Fulfilled d) s') = v"
  shows "slot ep (settle_all evs s) = v"
  using assms(1,2)
proof (induction evs rule: rev_induct)
  case Nil
  then show ?case by simp
next
  case (snoc x evs)
  obtain ep' out where x: "x = (ep', out)" by (cases x)
  show ?case
  proof (cases "ep' = ep")
    case True
    then have "(ep, out) \<in> set (evs @ [x])" by (simp add: x)
    then have "out = Fulfilled d" by (rule snoc.prems(2))
    then have "settle_all (evs @ [x]) s = on_settled ep (Fulfilled d) (settle_all evs s)"
      by (simp only: x True settle_all_snoc)
    then show ?thesis by (simp only: assms(3))
  next
    case False
    have "(ep, Fulfilled d) \<in> set evs"
      using snoc.prems(1) False by (simp add: x)
    then have "slot ep (settle_all evs s) = v"
    proof (rule snoc.IH)
      fix out' assume "(ep, out') \<in> set evs"
      then have "(ep, out') \<in> set (evs @ [x])" by simp
      then show "out' = Fulfilled d" by (rule snoc.prems(2))
    qed
    then show ?thesis by (simp add: x False settle_all_snoc slot_on_settled_other)
  qed
qed

text \<open>
  C8 as stated fails. The region request is rejected and the three others are fulfilled,
  but the body of the category response is \<^verbatim>\<open>null\<close>: reading its \<^verbatim>\<open>data\<close> field
  throws, the \<^verbatim>\<open>catch\<close> swallows the error, and the category slot keeps its previous
  rows as the region slot does. So the region slot is not the only one that retains its
  value, and the category slot does not update.
\<close>

theorem null_body_retains_slot_counterexample:
  "regData (settle_all
       [(ApiSummary, Fulfilled (example_summary 3)),
        (ApiSalesByCategory, Fulfilled JNull),
        (ApiSalesByRegion, Rejected),
        (ApiMonthlyTrend, Fulfilled (JObj [(''data'', JObj [(''2022'', JArr [])])]))]
       (initial_page\<lparr>catData := JArr [JObj [(''Category'', JStr ''A'')]],
                      regData := JArr [JObj [(''Region'', JStr ''East'')]]\<rparr>)) =
     JArr [JObj [(''Region'', JStr ''East'')]] \<and>
   catData (settle_all
       [(ApiSummary, Fulfilled (example_summary 3)),
        (ApiSalesByCategory, Fulfilled JNull),
        (ApiSalesByRegion, Rejected),
        (ApiMonthlyTrend, Fulfilled (JObj [(''data'', JObj [(''2022'', JArr [])])]))]
       (initial_page\<lparr>catData := JArr [JObj [(''Category'', JStr ''A'')]],
                      regData := JArr [JObj [(''Region'', JStr ''East'')]]\<rparr>)) =
     catData (initial_page\<lparr>catData := JArr [JObj [(''Category'', JStr ''A'')]],
                      regData := JArr [JObj [(''Region'', JStr ''East'')]]\<rparr>) \<and>
   catData (settle_all
       [(ApiSummary, Fulfilled (example_summary 3)),
        (ApiSalesByCategory, Fulfilled JNull),
        (ApiSalesByRegion, Rejected),
        (ApiMonthlyTrend, Fulfilled (JObj [(''data'', JObj [(''2022'', JArr [])])]))]
       (initial_page\<lparr>catData := JArr [JObj [(''Category'', JStr ''A'')]],
                      regData := JArr [JObj [(''Region'', JStr ''East'')]]\<rparr>)) =
     JArr [JObj [(''Category'', JStr ''A'')]]"
  by (simp add: settle_all_def initial_page_def js_or_def)

text \<open>
  C8 (amended). The four requests of one run of the filters effect settle in any order
  \<open>evs\<close>: the region request is rejected, the three others are fulfilled, with bodies
  \<open>ds\<close>, \<open>dc\<close> and \<open>dt\<close>, and the \<^verbatim>\<open>data\<close> field can be read from the category body
  and from the trend body (neither is \<^verbatim>\<open>null\<close> or \<^verbatim>\<open>undefined\<close>; \<open>vc\<close> and \<open>vt\<close> are
  the fields read). Then the region slot keeps its previous value, and the three other
  slots hold the new responses: the summary body, the category rows and the trend map
  (each of the two with the handler's default when the field is missing or falsy).
\<close>

theorem region_failure_isolated:
  assumes "set evs =
      {(ApiSalesByRegion, Rejected), (ApiSummary, Fulfilled ds),
       (ApiSalesByCategory, Fulfilled dc), (ApiMonthlyTrend, Fulfilled dt)}"
    and "data_of dc = Inr vc"
    and "data_of dt = Inr vt"
  shows "regData (settle_all evs s) = regData s \<and>
         summary (settle_all evs s) = ds \<and>
         catData (settle_all evs s) = js_or vc (JArr []) \<and>
         trendData (settle_all evs s) = js_or vt (JObj [])"
proof -
  have mem: "e \<in> set evs \<longleftrightarrow>
      e = (ApiSalesByRegion, Rejected) \<or> e = (ApiSummary, Fulfilled ds) \<or>
      e = (ApiSalesByCategory, Fulfilled dc) \<or> e = (ApiMonthlyTrend, Fulfilled dt)" for e
    by (simp add: assms(1))
  have "slot ApiSalesByRegion (settle_all evs s) = slot ApiSalesByRegion s"
  proof (rule slot_settle_all_rejected)
    fix out assume "(ApiSalesByRegion, out) \<in> set evs"
    then show "out = Rejected" by (simp add: mem)
  qed
  moreover have "slot ApiSummary (settle_all evs s) = ds"
  proof (rule slot_settle_all_fulfilled [where d = ds])
    show "(ApiSummary, Fulfilled ds) \<in> set evs" by (simp add: mem)
    fix out assume "(ApiSummary, out) \<in> set evs"
    then show "out = Fulfilled ds" by (simp add: mem)
  next
    fix s' show "slot ApiSummary (on_settled ApiSummary (Fulfilled ds) s') = ds" by simp
  qed
  moreover have "slot ApiSalesByCategory (settle_all evs s) = js_or vc (JArr [])"
  proof (rule slot_settle_all_fulfilled [where d = dc])
    show "(ApiSalesByCategory, Fulfilled dc) \<in> set evs" by (simp add: mem)
    fix out assume "(ApiSalesByCategory, out) \<in> set evs"
    then show "out = Fulfilled dc" by (simp add: mem)
  next
    fix s'
    show "slot ApiSalesByCategory (on_settled ApiSalesByCategory (Fulfilled dc) s') =
        js_or vc (JArr [])"
      using assms(2) by simp
  qed
  moreover have "slot ApiMonthlyTrend (settle_all evs s) = js_or vt (JObj [])"
  proof (rule slot_settle_all_fulfilled [where d = dt])
    show "(ApiMonthlyTrend, Fulfilled dt) \<in> set evs" by (simp add: mem)
    fix out assume "(ApiMonthlyTrend, out) \<in> set evs"
    then show "out = Fulfilled dt" by (simp add: mem)
  next
    fix s'
    show "slot ApiMonthlyTrend (on_settled ApiMonthlyTrend (Fulfilled dt) s') =
        js_or vt (JObj [])"
      using assms(3) by simp
  qed
  ultimately show ?thesis by simp
qed

text \<open>
  An instance: the region slot shows one row; the category response arrives first, then
  the region request fails, then the trend and the summary responses arrive.
\<close>

theorem region_failure_isolated_witness:
  "set [(ApiSalesByCategory, Fulfilled (JObj [(''data'', JArr [JObj [(''Category'', JStr ''A'')]])])),
        (ApiSalesByRegion, Rejected),
        (ApiMonthlyTrend, Fulfilled (JObj [(''data'', JObj [(''2022'', JArr [])])])),
        (ApiSummary, Fulfilled (example_summary 3))] =
     {(ApiSalesByRegion, Rejected),
      (ApiSummary, Fulfilled (example_summary 3)),
      (ApiSalesByCategory, Fulfilled (JObj [(''data'', JArr [JObj [(''Category'', JStr ''A'')]])])),
      (ApiMonthlyTrend, Fulfilled (JObj [(''data'', JObj [(''2022'', JArr [])])]))} \<and>
   data_of (JObj [(''data'', JArr [JObj [(''Category'', JStr ''A'')]])]) =
     Inr (JArr [JObj [(''Category'', JStr ''A'')]]) \<and>
   data_of (JObj [(''data'', JObj [(''2022'', JArr [])])]) = Inr (JObj [(''2022'', JArr [])]) \<and>
   regData (settle_all
       [(ApiSalesByCategory, Fulfilled (JObj [(''data'', JArr [JObj [(''Category'', JStr ''A'')]])])),
        (ApiSalesByRegion, Rejected),
        (ApiMonthlyTrend, Fulfilled (JObj [(''data'', JObj [(''2022'', JArr [])])])),
        (ApiSummary, Fulfilled (example_summary 3))]
       (initial_page\<lparr>regData := JArr [JObj [(''Region'', JStr ''East'')]]\<rparr>)) =
     JArr [JObj [(''Region'', JStr ''East'')]] \<and>
   summary (settle_all
       [(ApiSalesByCategory, Fulfilled (JObj [(''data'', JArr [JObj [(''Category'', JStr ''A'')]])])),
        (ApiSalesByRegion, Rejected),
        (ApiMonthlyTrend, Fulfilled (JObj [(''data'', JObj [(''2022'', JArr [])])])),
        (ApiSummary, Fulfilled (example_summary 3))]
       (initial_page\<lparr>regData := JArr [JObj [(''Region'', JStr ''East'')]]\<rparr>)) =
     example_summary 3 \<and>
   catData (settle_all
       [(ApiSalesByCategory, Fulfilled (JObj [(''data'', JArr [JObj [(''Category'', JStr ''A'')]])])),
        (ApiSalesByRegion, Rejected),
        (ApiMonthlyTrend, Fulfilled (JObj [(''data'', JObj [(''2022'', JArr [])])])),
        (ApiSummary, Fulfilled (example_summary 3))]
       (initial_page\<lparr>regData := JArr [JObj [(''Region'', JStr ''East'')]]\<rparr>)) =
     JArr [JObj [(''Category'', JStr ''A'')]] \<and>
   trendData (settle_all
       [(ApiSalesByCategory, Fulfilled (JObj [(''data'', JArr [JObj [(''Category'', JStr ''A'')]])])),
        (ApiSalesByRegion, Rejected),
        (ApiMonthlyTrend, Fulfilled (JObj [(''data'', JObj [(''2022'', JArr [])])])),
        (ApiSummary, Fulfilled (example_summary 3))]
       (initial_page\<lparr>regData := JArr [JObj [(''Region'', JStr ''East'')]]\<rparr>)) =
     JObj [(''2022'', JArr [])]"
proof -
  have h1: "set [(ApiSalesByCategory, Fulfilled (JObj [(''data'', JArr [JObj [(''Category'', JStr ''A'')]])])),
        (ApiSalesByRegion, Rejected),
        (ApiMonthlyTrend, Fulfilled (JObj [(''data'', JObj [(''2022'', JArr [])])])),
        (ApiSummary, Fulfilled (example_summary 3))] =
     {(ApiSalesByRegion, Rejected),
      (ApiSummary, Fulfilled (example_summary 3)),
      (ApiSalesByCategory, Fulfilled (JObj [(''data'', JArr [JObj [(''Category'', JStr ''A'')]])])),
      (ApiMonthlyTrend, Fulfilled (JObj [(''data'', JObj [(''2022'', JArr [])])]))}"
    by (simp add: insert_commute)
  have h2: "data_of (JObj [(''data'', JArr [JObj [(''Category'', JStr ''A'')]])]) =
     Inr (JArr [JObj [(''Category'', JStr ''A'')]])"
    by simp
  have h3: "data_of (JObj [(''data'', JObj [(''2022'', JArr [])])]) =
     Inr (JObj [(''2022'', JArr [])])"
    by simp
  show ?thesis
    using h1 h2 h3
      region_failure_isolated [OF h1 h2 h3,
        of "initial_page\<lparr>regData := JArr [JObj [(''Region'', JStr ''East'')]]\<rparr>"]
    by (simp add: js_or_def)
qed

text \<open>
  C9 as stated fails. A category response whose \<^verbatim>\<open>data\<close> field is a non-empty string,
  not a list of rows, is stored in the category slot as it is. A response whose body is
  \<^verbatim>\<open>null\<close> has no \<^verbatim>\<open>data\<close> field to read: the handler throws, the \<^verbatim>\<open>catch\<close>
  swallows the error, and the slot keeps its rows instead of becoming empty.
\<close>

theorem malformed_data_stored_counterexample:
  "catData (on_settled ApiSalesByCategory (Fulfilled (JObj [(''data'', JStr ''oops'')]))
      initial_page) = JStr ''oops'' \<and>
   catData (on_settled ApiSalesByCategory (Fulfilled (JObj [(''data'', JStr ''oops'')]))
      initial_page) \<noteq> JArr [] \<and>
   catData (on_settled ApiSalesByCategory (Fulfilled JNull)
      (initial_page\<lparr>catData := JArr [JObj [(''Category'', JStr ''A'')]]\<rparr>)) \<noteq> JArr []"
  by (simp add: initial_page_def js_or_def)

text \<open>
  C9 (amended). For the category, region and trend endpoints, with \<open>v\<close> the \<^verbatim>\<open>data\<close>
  field read from the body \<open>d\<close> (\<^verbatim>\<open>undefined\<close> when the body has no such field):
  \<^item> when \<open>v\<close> is missing or falsy (\<^verbatim>\<open>undefined\<close>, \<^verbatim>\<open>null\<close>, \<^verbatim>\<open>false\<close>, \<open>0\<close>, the
    empty string), the slot is set to empty data: the empty sequence for category and
    region rows, the empty mapping for the trend;
  \<^item> when \<open>v\<close> is any other value, of the expected shape or not, it is stored as it is;
  \<^item> when the body is \<^verbatim>\<open>null\<close> or \<^verbatim>\<open>undefined\<close>, so that reading the field throws,
    the state is left as it was.
  The summary endpoint stores the body as it is.
\<close>

theorem data_field_defaulting:
  "(data_of d = Inr v \<and> \<not> truthy v \<longrightarrow>
      catData (on_settled ApiSalesByCategory (Fulfilled d) s) = JArr [] \<and>
      regData (on_settled ApiSalesByRegion (Fulfilled d) s) = JArr [] \<and>
      trendData (on_settled ApiMonthlyTrend (Fulfilled d) s) = JObj []) \<and>
   (data_of d = Inr v \<and> truthy v \<longrightarrow>
      catData (on_settled ApiSalesByCategory (Fulfilled d) s) = v \<and>
      regData (on_settled ApiSalesByRegion (Fulfilled d) s) = v \<and>
      trendData (on_settled ApiMonthlyTrend (Fulfilled d) s) = v) \<and>
   (data_of d = Inl e \<longrightarrow>
      on_settled ApiSalesByCategory (Fulfilled d) s = s \<and>
      on_settled ApiSalesByRegion (Fulfilled d) s = s \<and>
      on_settled ApiMonthlyTrend (Fulfilled d) s = s) \<and>
   summary (on_settled ApiSummary (Fulfilled d) s) = d"
  by (simp add: js_or_def)

text \<open>
  Instances: a body without a \<^verbatim>\<open>data\<close> field, a body whose \<^verbatim>\<open>data\<close> is \<^verbatim>\<open>null\<close>,
  a body whose \<^verbatim>\<open>data\<close> is a string, and the body \<^verbatim>\<open>null\<close>.
\<close>

theorem data_field_defaulting_witness:
  "(data_of (JObj [(''rows'', JArr [])]) = Inr JUndefined \<and> \<not> truthy JUndefined \<and>
    catData (on_settled ApiSalesByCategory (Fulfilled (JObj [(''rows'', JArr [])]))
      (initial_page\<lparr>catData := JArr [JObj [(''Category'', JStr ''A'')]]\<rparr>)) = JArr []) \<and>
   (data_of (JObj [(''data'', JNull)]) = Inr JNull \<and> \<not> truthy JNull \<and>
    trendData (on_settled ApiMonthlyTrend (Fulfilled (JObj [(''data'', JNull)])) initial_page) =
      JObj []) \<and>
   (data_of (JObj [(''data'', JStr ''oops'')]) = Inr (JStr ''oops'') \<and> truthy (JStr ''oops'') \<and>
    regData (on_settled ApiSalesByRegion (Fulfilled (JObj [(''data'', JStr ''oops'')]))
      initial_page) = JStr ''oops'') \<and>
   (data_of JNull = Inl TypeError \<and>
    on_settled ApiSalesByCategory (Fulfilled JNull) initial_page = initial_page)"
  using
    data_field_defaulting [of "JObj [(''rows'', JArr [])]" JUndefined
      "initial_page\<lparr>catData := JArr [JObj [(''Category'', JStr ''A'')]]\<rparr>" TypeError]
    data_field_defaulting [of "JObj [(''data'', JNull)]" JNull initial_page TypeError]
    data_field_defaulting [of "JObj [(''data'', JStr ''oops'')]" "JStr ''oops''" initial_page
      TypeError]
    data_field_defaulting [of JNull JUndefined initial_page TypeError]
  by simp

section \<open>Responses of an earlier generation\<close>

lemma step_RequestSettled_outstanding:
  assumes "(g, ep) \<in> set (outstanding sys)"
  shows "page (step (RequestSettled g ep out) sys) = on_settled ep out (page sys)"
    and "slot_generation (step (RequestSettled g ep out) sys) ep =
      (if writes ep out (page sys) then Some g else slot_generation sys ep)"
  using assms by simp_all

text \<open>
  C1 as stated fails: the handlers compare no generation. The metadata arrives
  (generation 0 is posted), the user unselects category \<open>A\<close> (generation 1 is posted), the
  summary response of generation 1 arrives and is stored. The summary request of
  generation 0 is still outstanding; when its response arrives, it replaces the newer
  summary.
\<close>

theorem stale_response_overwrites_counterexample:
  "slot_generation
     (run [MetadataSettled (Fulfilled example_meta), ClickItem Categories (Str ''A''),
           RequestSettled 1 ApiSummary (Fulfilled (example_summary 4))]
        initial_system) ApiSummary = Some 1 \<and>
   (0, ApiSummary) \<in> set (outstanding
     (run [MetadataSettled (Fulfilled example_meta), ClickItem Categories (Str ''A''),
           RequestSettled 1 ApiSummary (Fulfilled (example_summary 4))]
        initial_system)) \<and>
   (0::nat) < 1 \<and>
   summary (page
     (run [MetadataSettled (Fulfilled example_meta), ClickItem Categories (Str ''A''),
           RequestSettled 1 ApiSummary (Fulfilled (example_summary 4))]
        initial_system)) = example_summary 4 \<and>
   summary (page
     (step (RequestSettled 0 ApiSummary (Fulfilled (example_summary 9)))
       (run [MetadataSettled (Fulfilled example_meta), ClickItem Categories (Str ''A''),
             RequestSettled 1 ApiSummary (Fulfilled (example_summary 4))]
          initial_system))) \<noteq>
   summary (page
     (run [MetadataSettled (Fulfilled example_meta), ClickItem Categories (Str ''A''),
           RequestSettled 1 ApiSummary (Fulfilled (example_summary 4))]
        initial_system))"
  by (simp add: run_def initial_system_def initial_page_def example_meta_def
      filters_changed_def filters_effect_def toggleItem_def new_Set_def set_add_def
      set_has_def set_delete_def Let_def example_summary_def)

text \<open>
  C1 (amended). For every result slot, the fulfilled response of an outstanding request
  of any generation \<open>g\<close> is merged when it arrives, whatever generation the slot's data
  has (also a later one): provided the body can be read (any body for the summary, a body
  other than \<^verbatim>\<open>null\<close> and \<^verbatim>\<open>undefined\<close> for the three others), the slot's data after
  processing is what the handler makes of this response on any page \<open>p\<close>, so it does not
  depend on what the slot held, and the slot's data is now of generation \<open>g\<close>. The slot's
  data is unchanged when the request failed.
\<close>

theorem response_merged_whatever_generation:
  assumes "(g, ep) \<in> set (outstanding sys)"
    and "ep = ApiSummary \<or> (d \<noteq> JNull \<and> d \<noteq> JUndefined)"
  shows "slot ep (page (step (RequestSettled g ep (Fulfilled d)) sys)) =
           slot ep (on_settled ep (Fulfilled d) p) \<and>
         slot_generation (step (RequestSettled g ep (Fulfilled d)) sys) ep = Some g \<and>
         slot ep (page (step (RequestSettled g ep Rejected) sys)) = slot ep (page sys)"
proof -
  have "slot ep (page (step (RequestSettled g ep (Fulfilled d)) sys)) =
      slot ep (on_settled ep (Fulfilled d) (page sys))"
    by (simp only: step_RequestSettled_outstanding(1) [OF assms(1)])
  also have "\<dots> = slot ep (on_settled ep (Fulfilled d) p)"
    by (rule slot_on_settled_state_independent [OF assms(2)])
  finally have merged: "slot ep (page (step (RequestSettled g ep (Fulfilled d)) sys)) =
      slot ep (on_settled ep (Fulfilled d) p)" .
  have "writes ep (Fulfilled d) (page sys)"
    using assms(2) by (simp only: writes_iff)
  then have tagged: "slot_generation (step (RequestSettled g ep (Fulfilled d)) sys) ep = Some g"
    by (simp only: step_RequestSettled_outstanding(2) [OF assms(1)] if_True)
  have kept: "slot ep (page (step (RequestSettled g ep Rejected) sys)) = slot ep (page sys)"
    by (simp only: step_RequestSettled_outstanding(1) [OF assms(1)] on_settled.simps)
  from merged tagged kept show ?thesis by simp
qed

text \<open>
  An instance on the category slot: the rows of generation 1 are in the slot when the
  response of generation 0 arrives, and the rows of generation 0 replace them.
\<close>

theorem response_merged_whatever_generation_witness:
  "(0, ApiSalesByCategory) \<in> set (outstanding
     (run [MetadataSettled (Fulfilled example_meta), ClickItem Categories (Str ''A''),
           RequestSettled 1 ApiSalesByCategory
             (Fulfilled (JObj [(''data'', JArr [JObj [(''Category'', JStr ''B'')]])]))]
        initial_system)) \<and>
   JObj [(''data'', JArr [JObj [(''Category'', JStr ''A'')], JObj [(''Category'', JStr ''B'')]])]
     \<noteq> JNull \<and>
   JObj [(''data'', JArr [JObj [(''Category'', JStr ''A'')], JObj [(''Category'', JStr ''B'')]])]
     \<noteq> JUndefined \<and>
   slot_generation
     (run [MetadataSettled (Fulfilled example_meta), ClickItem Categories (Str ''A''),
           RequestSettled 1 ApiSalesByCategory
             (Fulfilled (JObj [(''data'', JArr [JObj [(''Category'', JStr ''B'')]])]))]
        initial_system) ApiSalesByCategory = Some 1 \<and>
   catData (page
     (step (RequestSettled 0 ApiSalesByCategory
              (Fulfilled (JObj [(''data'',
                 JArr [JObj [(''Category'', JStr ''A'')], JObj [(''Category'', JStr ''B'')]])])))
       (run [MetadataSettled (Fulfilled example_meta), ClickItem Categories (Str ''A''),
             RequestSettled 1 ApiSalesByCategory
               (Fulfilled (JObj [(''data'', JArr [JObj [(''Category'', JStr ''B'')]])]))]
          initial_system))) =
     JArr [JObj [(''Category'', JStr ''A'')], JObj [(''Category'', JStr ''B'')]] \<and>
   slot_generation
     (step (RequestSettled 0 ApiSalesByCategory
              (Fulfilled (JObj [(''data'',
                 JArr [JObj [(''Category'', JStr ''A'')], JObj [(''Category'', JStr ''B'')]])])))
       (run [MetadataSettled (Fulfilled example_meta), ClickItem Categories (Str ''A''),
             RequestSettled 1 ApiSalesByCategory
               (Fulfilled (JObj [(''data'', JArr [JObj [(''Category'', JStr ''B'')]])]))]
          initial_system)) ApiSalesByCategory = Some 0"
proof -
  have h1: "(0, ApiSalesByCategory) \<in> set (outstanding
     (run [MetadataSettled (Fulfilled example_meta), ClickItem Categories (Str ''A''),
           RequestSettled 1 ApiSalesByCategory
             (Fulfilled (JObj [(''data'', JArr [JObj [(''Category'', JStr ''B'')]])]))]
        initial_system))"
    by (simp add: run_def initial_system_def initial_page_def example_meta_def
        filters_changed_def filters_effect_def toggleItem_def new_Set_def set_add_def
        set_has_def set_delete_def Let_def)
  have h2: "ApiSalesByCategory = ApiSummary \<or>
      (JObj [(''data'', JArr [JObj [(''Category'', JStr ''A'')], JObj [(''Category'', JStr ''B'')]])]
         \<noteq> JNull \<and>
       JObj [(''data'', JArr [JObj [(''Category'', JStr ''A'')], JObj [(''Category'', JStr ''B'')]])]
         \<noteq> JUndefined)"
    by simp
  have h3: "slot_generation
     (run [MetadataSettled (Fulfilled example_meta), ClickItem Categories (Str ''A''),
           RequestSettled 1 ApiSalesByCategory
             (Fulfilled (JObj [(''data'', JArr [JObj [(''Category'', JStr ''B'')]])]))]
        initial_system) ApiSalesByCategory = Some 1"
    by (simp add: run_def initial_system_def initial_page_def example_meta_def
        filters_changed_def filters_effect_def toggleItem_def new_Set_def set_add_def
        set_has_def set_delete_def Let_def)
  show ?thesis
    using h1 h3 response_merged_whatever_generation [OF h1 h2, of initial_page]
    by (simp add: js_or_def)
qed

section \<open>The loading flag\<close>

lemma loading_on_settled: "loading (on_settled ep out s) = loading s"
  by (cases out; cases ep) (simp_all split: sum.splits)

lemma loading_step: "\<not> loading (page sys) \<Longrightarrow> \<not> loading (page (step e sys))"
proof (cases e)
  case (MetadataSettled m)
  assume "\<not> loading (page sys)"
  with MetadataSettled show ?thesis
    by (cases m) (simp_all add: loading_filters_changed)
next
  case (ClickSelectAll k)
  assume "\<not> loading (page sys)"
  with ClickSelectAll show ?thesis by (simp add: loading_filters_changed)
next
  case (ClickItem k v)
  assume "\<not> loading (page sys)"
  with ClickItem show ?thesis by (simp add: loading_filters_changed)
next
  case (RequestSettled g ep out)
  assume "\<not> loading (page sys)"
  with RequestSettled show ?thesis by (simp add: loading_on_settled)
qed

lemma loading_run: "\<not> loading (page sys) \<Longrightarrow> \<not> loading (page (run evs sys))"
proof (induction evs arbitrary: sys)
  case Nil
  then show ?case by (simp add: run_def)
next
  case (Cons e evs)
  from Cons.prems have "\<not> loading (page (step e sys))" by (rule loading_step)
  then have "\<not> loading (page (run evs (step e sys)))" by (rule Cons.IH)
  then show ?case by (simp add: run_def)
qed

lemma loading_never_observed: "\<not> loading (page (run evs initial_system))"
  by (rule loading_run) (simp add: initial_system_def initial_page_def)

end
